theory Spec2Isabelle
  imports Main
begin

section \<open>Data model\<close>

subsection \<open>Event payloads\<close>

text \<open>
  Modelled from the spec: the module \<open>types/event\<close> (the payload types imported by
  \<open>ChatPage.vue\<close>) is not among the sources, so the payload records follow the table of
  event payload shapes: every payload carries \<open>event_id\<close>; the other fields are those the
  table lists for its kind. String-literal unions are datatypes.
\<close>

datatype Role = User | Assistant

datatype ToolStatus = Calling | Called

datatype StepStatus = Pending | Running | Completed | Failed

text \<open>
  Modelled from the spec: \<open>FileInfo\<close> comes from \<open>api/file\<close>, which is not among the
  sources; the only field the page reads is \<open>file_id\<close>.
\<close>

record FileInfo =
  file_id :: string

record BaseEventData =
  event_id :: string

text \<open>\<open>attachments\<close> is read with \<open>?.\<close>, so it may be missing: \<open>None\<close> is the missing key.\<close>

record MessageEventData = BaseEventData +
  role :: Role
  content :: string
  timestamp :: int
  attachments :: "FileInfo list option"

text \<open>
  \<open>content?\<close> is an optional key: \<open>None\<close> is an object without the key. The values of
  the \<open>any\<close>-typed fields \<open>args\<close> and \<open>content\<close> are kept as strings.
\<close>

record ToolEventData = BaseEventData +
  tool_call_id :: string
  name :: string
  "function" :: string
  args :: string
  content :: "string option"
  status :: ToolStatus
  timestamp :: int

record StepEventData = BaseEventData +
  id :: string
  description :: string
  status :: StepStatus

record ErrorEventData = BaseEventData +
  error :: string
  timestamp :: int

record TitleEventData = BaseEventData +
  title :: string

record PlanEventData = BaseEventData +
  steps :: "StepEventData list"

datatype AgentSSEEvent =
    MessageEvent MessageEventData
  | ToolEvent ToolEventData
  | StepEvent StepEventData
  | DoneEvent BaseEventData
  | WaitEvent BaseEventData
  | ErrorEvent ErrorEventData
  | TitleEvent TitleEventData
  | PlanEvent PlanEventData

text \<open>\<open>event.data.event_id\<close>\<close>

fun data_event_id :: "AgentSSEEvent \<Rightarrow> string" where
  "data_event_id (MessageEvent d) = event_id d"
| "data_event_id (ToolEvent d) = event_id d"
| "data_event_id (StepEvent d) = event_id d"
| "data_event_id (DoneEvent d) = event_id d"
| "data_event_id (WaitEvent d) = event_id d"
| "data_event_id (ErrorEvent d) = event_id d"
| "data_event_id (TitleEvent d) = event_id d"
| "data_event_id (PlanEvent d) = event_id d"

subsection \<open>Transcript entries (types/message.ts)\<close>

datatype MessageType = TypeUser | TypeAssistant | TypeTool | TypeStep | TypeAttachments

text \<open>\<open>type: messageData.role\<close>: the role string is used as the entry's type.\<close>

fun role_type :: "Role \<Rightarrow> MessageType" where
  "role_type User = TypeUser"
| "role_type Assistant = TypeAssistant"

text \<open>
  A tool object is created by \<open>{...toolData}\<close>, so at run time it has every field of the
  event payload. Tool objects are shared between the transcript, \<open>lastTool\<close> and
  \<open>lastNoMessageTool\<close> and are mutated through \<open>lastTool\<close>, so they live in a store
  and are referred to by their address (the index in the store).
\<close>

type_synonym ToolContent = ToolEventData

type_synonym ToolRef = nat

record StepContent = StepEventData +
  tools :: "ToolRef list"

record MessageContent =
  content :: string
  timestamp :: int

record AttachmentsContent =
  role :: Role
  attachments :: "FileInfo list"

text \<open>
  The objects stored under \<open>content\<close>, by shape: the spread of a message payload
  (\<open>{...messageData}\<close>, used for the message entry and for its attachments entry), the
  literal \<open>{content, timestamp}\<close>, the literal \<open>{role, attachments}\<close>, a tool object
  (by reference) and a step object. A step object is reached only through its transcript
  entry, so it is stored in the entry and updated there.
\<close>

datatype Content =
    MessageData MessageEventData
  | MessageC MessageContent
  | AttachmentsC AttachmentsContent
  | ToolC ToolRef
  | StepC StepContent

record Message =
  type :: MessageType
  content :: Content

subsection \<open>Calls made to collaborators\<close>

type_synonym CancelFn = nat

text \<open>
  Every call the page makes to a collaborator is appended to a log, in the order of the
  calls: the stored cancel function being invoked, \<open>agentApi.chatWithSession\<close> (session,
  message, timestamp of the body, resume cursor, attachment ids), \<open>showToolPanel\<close> (tool
  object, live flag), \<open>showErrorToast\<close>, \<open>console.error\<close>, \<open>console.log\<close> and the
  remaining \<open>agentApi\<close> and panel calls.
\<close>

datatype Effect =
    CancelCall CancelFn
  | ChatWithSession string string int "string option" "string list"
  | ShowToolPanel ToolRef bool
  | HideToolPanel
  | HideFilePanel
  | ShowErrorToast string
  | ConsoleError string string
  | ConsoleLog string
  | GetSession string
  | ClearUnreadMessageCount string
  | StopSession string
  | ScrollToBottom

subsection \<open>The reactive state (createInitialState)\<close>

text \<open>
  The fields of \<open>createInitialState\<close>, and two more that are not reactive state: the store
  of tool objects \<open>heap\<close> and the log of collaborator calls \<open>effects\<close>.
\<close>

record State =
  inputMessage :: string
  isLoading :: bool
  sessionId :: "string option"
  messages :: "Message list"
  toolPanelSize :: nat
  realTime :: bool
  follow :: bool
  title :: string
  plan :: "PlanEventData option"
  lastNoMessageTool :: "ToolRef option"
  lastMessageTool :: "ToolRef option"
  lastTool :: "ToolRef option"
  lastEventId :: "string option"
  cancelCurrentChat :: "CancelFn option"
  attachments :: "FileInfo list"
  heap :: "ToolContent list"
  effects :: "Effect list"

text \<open>\<open>t('New Chat')\<close> is taken as the untranslated key.\<close>

definition createInitialState :: State where
  "createInitialState =
     \<lparr> inputMessage = [], isLoading = False, sessionId = None, messages = [],
       toolPanelSize = 0, realTime = True, follow = True, title = ''New Chat'',
       plan = None, lastNoMessageTool = None, lastMessageTool = None, lastTool = None,
       lastEventId = None, cancelCurrentChat = None, attachments = [],
       heap = [], effects = [] \<rparr>"

section \<open>The reducer (handleEvent and its handlers)\<close>

text \<open>\<open>messages.value.filter(message => message.type === 'step').pop()?.content\<close>\<close>

definition getLastStep :: "Message list \<Rightarrow> Content option" where
  "getLastStep ms =
     (case rev (filter (\<lambda>m. type m = TypeStep) ms) of
        [] \<Rightarrow> None
      | m # _ \<Rightarrow> Some (Message.content m))"

text \<open>\<open>lastStep?.status === 'running'\<close>\<close>

fun lastStep_running :: "Content option \<Rightarrow> bool" where
  "lastStep_running (Some (StepC st)) = (StepEventData.status st = Running)"
| "lastStep_running _ = False"

text \<open>
  An assignment through \<open>lastStep\<close> changes the step object of the last entry of type
  step. Every entry of type step holds a step object (they are pushed by
  \<open>handleStepEvent\<close> only); an entry of another shape is left as it is.
\<close>

fun map_step :: "(StepContent \<Rightarrow> StepContent) \<Rightarrow> Content \<Rightarrow> Content" where
  "map_step f (StepC st) = StepC (f st)"
| "map_step f c = c"

fun update_first_step :: "(StepContent \<Rightarrow> StepContent) \<Rightarrow> Message list \<Rightarrow> Message list" where
  "update_first_step f [] = []"
| "update_first_step f (m # ms) =
     (if type m = TypeStep then m\<lparr>Message.content := map_step f (Message.content m)\<rparr> # ms
      else m # update_first_step f ms)"

definition update_last_step :: "(StepContent \<Rightarrow> StepContent) \<Rightarrow> Message list \<Rightarrow> Message list" where
  "update_last_step f ms = rev (update_first_step f (rev ms))"

text \<open>handleMessageEvent\<close>

definition handleMessageEvent :: "MessageEventData \<Rightarrow> State \<Rightarrow> State" where
  "handleMessageEvent messageData s =
     (let s1 = s\<lparr>messages := messages s @
                  [\<lparr>type = role_type (MessageEventData.role messageData),
                    content = MessageData messageData\<rparr>]\<rparr>
      in case MessageEventData.attachments messageData of
           None \<Rightarrow> s1
         | Some fs \<Rightarrow>
             if length fs > 0
             then s1\<lparr>messages := messages s1 @
                      [\<lparr>type = TypeAttachments, content = MessageData messageData\<rparr>]\<rparr>
             else s1)"

text \<open>
  \<open>Object.assign(target, source)\<close> on tool objects: every key of the source is copied;
  a source without the optional key \<open>content\<close> leaves the target's \<open>content\<close>.
\<close>

definition Object_assign :: "ToolContent \<Rightarrow> ToolContent \<Rightarrow> ToolContent" where
  "Object_assign target source =
     (case ToolEventData.content source of
        None \<Rightarrow> source\<lparr>ToolEventData.content := ToolEventData.content target\<rparr>
      | Some c \<Rightarrow> source)"

text \<open>
  \<open>lastTool.value && lastTool.value.tool_call_id === toolContent.tool_call_id\<close>: the
  tracked tool object when the test succeeds.
\<close>

definition same_as_lastTool :: "State \<Rightarrow> ToolContent \<Rightarrow> ToolRef option" where
  "same_as_lastTool s toolContent =
     (case lastTool s of
        None \<Rightarrow> None
      | Some a \<Rightarrow>
          if tool_call_id (heap s ! a) = tool_call_id toolContent then Some a else None)"

text \<open>
  handleToolEvent. The new object \<open>toolContent\<close> is allocated at the end of the store; its
  address is \<open>length (heap s)\<close>.
\<close>

definition handleToolEvent :: "ToolEventData \<Rightarrow> State \<Rightarrow> State" where
  "handleToolEvent toolData s =
     (let lastStep = getLastStep (messages s);
          toolContent = length (heap s);
          s1 = s\<lparr>heap := heap s @ [toolData]\<rparr>;
          s2 = (case same_as_lastTool s toolData of
                  Some a \<Rightarrow>
                    s1\<lparr>heap := (heap s1)[a := Object_assign (heap s1 ! a) toolData]\<rparr>
                | None \<Rightarrow>
                    (if lastStep_running lastStep
                     then s1\<lparr>messages := update_last_step
                                (\<lambda>st. st\<lparr>tools := tools st @ [toolContent]\<rparr>) (messages s1)\<rparr>
                     else s1\<lparr>messages := messages s1 @
                                [\<lparr>type = TypeTool, content = ToolC toolContent\<rparr>]\<rparr>)
                    \<lparr>lastTool := Some toolContent\<rparr>)
      in if name toolData \<noteq> ''message''
         then (let s3 = s2\<lparr>lastNoMessageTool := Some toolContent\<rparr>
               in if realTime s3
                  then s3\<lparr>effects := effects s3 @ [ShowToolPanel toolContent True]\<rparr>
                  else s3)
         else s2)"

text \<open>handleStepEvent\<close>

definition handleStepEvent :: "StepEventData \<Rightarrow> State \<Rightarrow> State" where
  "handleStepEvent stepData s =
     (if StepEventData.status stepData = Running
      then s\<lparr>messages := messages s @
               [\<lparr>type = TypeStep,
                 content = StepC (StepEventData.extend stepData \<lparr>tools = []\<rparr>)\<rparr>]\<rparr>
      else if StepEventData.status stepData = Completed
      then (case getLastStep (messages s) of
              None \<Rightarrow> s
            | Some _ \<Rightarrow>
                s\<lparr>messages := update_last_step
                    (\<lambda>st. st\<lparr>StepEventData.status := StepEventData.status stepData\<rparr>)
                    (messages s)\<rparr>)
      else if StepEventData.status stepData = Failed
      then s\<lparr>isLoading := False\<rparr>
      else s)"

text \<open>handleErrorEvent\<close>

definition handleErrorEvent :: "ErrorEventData \<Rightarrow> State \<Rightarrow> State" where
  "handleErrorEvent errorData s =
     s\<lparr>isLoading := False,
       messages := messages s @
         [\<lparr>type = TypeAssistant,
           content = MessageC \<lparr>MessageContent.content = error errorData,
                               MessageContent.timestamp = ErrorEventData.timestamp errorData\<rparr>\<rparr>]\<rparr>"

text \<open>handleTitleEvent, handlePlanEvent\<close>

definition handleTitleEvent :: "TitleEventData \<Rightarrow> State \<Rightarrow> State" where
  "handleTitleEvent titleData s = s\<lparr>title := TitleEventData.title titleData\<rparr>"

definition handlePlanEvent :: "PlanEventData \<Rightarrow> State \<Rightarrow> State" where
  "handlePlanEvent planData s = s\<lparr>plan := Some planData\<rparr>"

text \<open>handleEvent: the dispatch on the kind, then the cursor.\<close>

fun dispatch :: "AgentSSEEvent \<Rightarrow> State \<Rightarrow> State" where
  "dispatch (MessageEvent d) s = handleMessageEvent d s"
| "dispatch (ToolEvent d) s = handleToolEvent d s"
| "dispatch (StepEvent d) s = handleStepEvent d s"
| "dispatch (DoneEvent d) s = s"
| "dispatch (WaitEvent d) s = s"
| "dispatch (ErrorEvent d) s = handleErrorEvent d s"
| "dispatch (TitleEvent d) s = handleTitleEvent d s"
| "dispatch (PlanEvent d) s = handlePlanEvent d s"

definition handleEvent :: "AgentSSEEvent \<Rightarrow> State \<Rightarrow> State" where
  "handleEvent event s = (dispatch event s)\<lparr>lastEventId := Some (data_event_id event)\<rparr>"

text \<open>Folding a list of events, first to last (the \<open>for\<close> loop of restoreSession, the
  successive \<open>onMessage\<close> callbacks of a channel).\<close>

fun handleEvents :: "AgentSSEEvent list \<Rightarrow> State \<Rightarrow> State" where
  "handleEvents [] s = s"
| "handleEvents (e # es) s = handleEvents es (handleEvent e s)"


section \<open>The controller\<close>

subsection \<open>JavaScript helpers\<close>

text \<open>
  \<open>String.prototype.trim\<close> removes white space and line terminators from both ends. A
  \<open>char\<close> is a code unit below 256; the white space there is TAB, LF, VT, FF, CR, SPACE
  and NBSP.
\<close>

definition is_whitespace :: "char \<Rightarrow> bool" where
  "is_whitespace c = (of_char c \<in> set [9, 10, 11, 12, 13, 32, 160 :: nat])"

definition trim :: "string \<Rightarrow> string" where
  "trim str = rev (dropWhile is_whitespace (rev (dropWhile is_whitespace str)))"

text \<open>Truthiness of a string: not empty.\<close>

definition truthy :: "string \<Rightarrow> bool" where
  "truthy str = (str \<noteq> [])"

subsection \<open>chat\<close>

text \<open>
  \<open>if (cancelCurrentChat.value) { cancelCurrentChat.value(); cancelCurrentChat.value = null; }\<close>
\<close>

definition cancel_existing :: "State \<Rightarrow> State" where
  "cancel_existing s =
     (case cancelCurrentChat s of
        None \<Rightarrow> s
      | Some c \<Rightarrow> s\<lparr>effects := effects s @ [CancelCall c], cancelCurrentChat := None\<rparr>)"

text \<open>
  The body of \<open>chat\<close> from the cancellation to \<open>isLoading.value = true\<close>. \<open>now\<close> is
  \<open>Date.now()\<close>, in milliseconds.
\<close>

definition chat_prepare :: "int \<Rightarrow> string \<Rightarrow> FileInfo list \<Rightarrow> State \<Rightarrow> State" where
  "chat_prepare now message files s =
     (let s1 = cancel_existing s;
          s2 = (if truthy (trim message)
                then s1\<lparr>messages := messages s1 @
                         [\<lparr>type = TypeUser,
                           content = MessageC \<lparr>MessageContent.content = message,
                                               MessageContent.timestamp = now div 1000\<rparr>\<rparr>]\<rparr>
                else s1);
          s3 = (if length files > 0
                then s2\<lparr>messages := messages s2 @
                         [\<lparr>type = TypeAttachments,
                           content = AttachmentsC \<lparr>AttachmentsContent.role = User,
                                                   AttachmentsContent.attachments = files\<rparr>\<rparr>]\<rparr>
                else s2)
      in s3\<lparr>follow := True, inputMessage := [], isLoading := True\<rparr>)"

text \<open>
  The call \<open>agentApi.chatWithSession(sessionId, message, lastEventId, file ids, callbacks)\<close>;
  the body it posts carries \<open>Math.floor(Date.now() / 1000)\<close> (api/agent.ts). The clock is
  read in the same synchronous run as in \<open>chat_prepare\<close>, so it is the same \<open>now\<close>.
\<close>

definition chat_call :: "int \<Rightarrow> string \<Rightarrow> string \<Rightarrow> FileInfo list \<Rightarrow> State \<Rightarrow> State" where
  "chat_call now sid message files s =
     s\<lparr>effects := effects s @
         [ChatWithSession sid message (now div 1000) (lastEventId s) (map file_id files)]\<rparr>"

text \<open>
  The outcome of \<open>await agentApi.chatWithSession(...)\<close>: the promise resolves to a cancel
  function, which is stored, or it rejects and the \<open>catch\<close> block runs.
\<close>

datatype OpenResult = Resolved CancelFn | Rejected string

fun chat_settle :: "OpenResult \<Rightarrow> State \<Rightarrow> State" where
  "chat_settle (Resolved c) s = s\<lparr>cancelCurrentChat := Some c\<rparr>"
| "chat_settle (Rejected err) s =
     s\<lparr>effects := effects s @ [ConsoleError ''Chat error:'' err],
       isLoading := False, cancelCurrentChat := None\<rparr>"

text \<open>\<open>if (!sessionId.value)\<close>: the session id that passes the test, if any.\<close>

definition active_session :: "State \<Rightarrow> string option" where
  "active_session s =
     (case sessionId s of
        None \<Rightarrow> None
      | Some sid \<Rightarrow> if truthy sid then Some sid else None)"

definition chat :: "int \<Rightarrow> string \<Rightarrow> FileInfo list \<Rightarrow> OpenResult \<Rightarrow> State \<Rightarrow> State" where
  "chat now message files res s =
     (case active_session s of
        None \<Rightarrow> s
      | Some sid \<Rightarrow>
          chat_settle res (chat_call now sid message files (chat_prepare now message files s)))"

definition handleSubmit :: "int \<Rightarrow> OpenResult \<Rightarrow> State \<Rightarrow> State" where
  "handleSubmit now res s = chat now (inputMessage s) (attachments s) res s"

text \<open>The callbacks given to \<open>chatWithSession\<close>.\<close>

definition onOpen :: "State \<Rightarrow> State" where
  "onOpen s = s\<lparr>effects := effects s @ [ConsoleLog ''Chat opened''], isLoading := True\<rparr>"

definition onMessage :: "AgentSSEEvent \<Rightarrow> State \<Rightarrow> State" where
  "onMessage event s = handleEvent event s"

definition onClose :: "State \<Rightarrow> State" where
  "onClose s =
     (let s1 = s\<lparr>effects := effects s @ [ConsoleLog ''Chat closed''], isLoading := False\<rparr>
      in case cancelCurrentChat s1 of
           None \<Rightarrow> s1
         | Some c \<Rightarrow> s1\<lparr>cancelCurrentChat := None\<rparr>)"

definition onError :: "string \<Rightarrow> State \<Rightarrow> State" where
  "onError err s =
     (let s1 = s\<lparr>effects := effects s @ [ConsoleError ''Chat error:'' err],
                 isLoading := False\<rparr>
      in case cancelCurrentChat s1 of
           None \<Rightarrow> s1
         | Some c \<Rightarrow> s1\<lparr>cancelCurrentChat := None\<rparr>)"

subsection \<open>resetState, restoreSession, navigation and teardown\<close>

text \<open>
  resetState: the stored cancel function is called, then \<open>Object.assign(state,
  createInitialState())\<close> overwrites every reactive field. The store of tool objects and
  the log of calls are not reactive fields.
\<close>

definition resetState :: "State \<Rightarrow> State" where
  "resetState s =
     (let s1 = (case cancelCurrentChat s of
                  None \<Rightarrow> s
                | Some c \<Rightarrow> s\<lparr>effects := effects s @ [CancelCall c]\<rparr>)
      in createInitialState\<lparr>heap := heap s1, effects := effects s1\<rparr>)"

text \<open>
  Modelled from the spec: \<open>types/response\<close> is not among the sources; a fetched session
  has a status (PENDING, RUNNING, COMPLETED, FAILED) and the historical event list.
\<close>

datatype SessionStatus = PENDING | RUNNING | COMPLETED | FAILED

record GetSessionResponse =
  events :: "AgentSSEEvent list"
  status :: SessionStatus

text \<open>
  The replay loop of restoreSession: \<open>realTime.value = false\<close>, every event through
  \<open>handleEvent\<close>, \<open>realTime.value = true\<close>.
\<close>

definition replay :: "AgentSSEEvent list \<Rightarrow> State \<Rightarrow> State" where
  "replay es s = (handleEvents es (s\<lparr>realTime := False\<rparr>))\<lparr>realTime := True\<rparr>"

text \<open>
  restoreSession. \<open>fetched\<close> is the outcome of \<open>await agentApi.getSession(...)\<close>:
  \<open>None\<close> when the promise rejects, which ends restoreSession there.
\<close>

definition restoreSession ::
    "int \<Rightarrow> GetSessionResponse option \<Rightarrow> OpenResult \<Rightarrow> State \<Rightarrow> State" where
  "restoreSession now fetched res s =
     (case active_session s of
        None \<Rightarrow> s\<lparr>effects := effects s @ [ShowErrorToast ''Session not found'']\<rparr>
      | Some sid \<Rightarrow>
          (let s0 = s\<lparr>effects := effects s @ [GetSession sid]\<rparr>
           in case fetched of
                None \<Rightarrow> s0
              | Some session \<Rightarrow>
                  (let s3 = replay (events session) s0;
                       s4 = (if GetSessionResponse.status session = RUNNING
                                \<or> GetSessionResponse.status session = PENDING
                             then chat now [] [] res s3
                             else s3)
                   in s4\<lparr>effects := effects s4 @ [ClearUnreadMessageCount sid]\<rparr>)))"

text \<open>onBeforeRouteUpdate; \<open>to_sessionId\<close> is \<open>to.params.sessionId\<close>.\<close>

definition onBeforeRouteUpdate ::
    "string option \<Rightarrow> int \<Rightarrow> GetSessionResponse option \<Rightarrow> OpenResult \<Rightarrow> State \<Rightarrow> State" where
  "onBeforeRouteUpdate to_sessionId now fetched res s =
     (let s1 = resetState (s\<lparr>effects := effects s @ [HideToolPanel, HideFilePanel]\<rparr>)
      in case to_sessionId of
           None \<Rightarrow> s1
         | Some sid \<Rightarrow>
             if truthy sid
             then restoreSession now fetched res (s1\<lparr>messages := [], sessionId := Some sid\<rparr>)
             else s1)"

text \<open>onUnmounted\<close>

definition onUnmounted :: "State \<Rightarrow> State" where
  "onUnmounted s = cancel_existing s"

text \<open>
  onMounted; \<open>route_sessionId\<close> is the route parameter, \<open>message\<close> and \<open>files\<close> are
  \<open>history.state?.message\<close> and \<open>history.state?.files\<close> (an undefined \<open>files\<close>
  takes the default \<open>[]\<close> of \<open>chat\<close>).
\<close>

definition onMounted ::
    "string option \<Rightarrow> string option \<Rightarrow> FileInfo list option \<Rightarrow> int \<Rightarrow>
     GetSessionResponse option \<Rightarrow> OpenResult \<Rightarrow> State \<Rightarrow> State" where
  "onMounted route_sessionId message files now fetched res s =
     (let s1 = s\<lparr>effects := effects s @ [HideFilePanel]\<rparr>
      in case route_sessionId of
           None \<Rightarrow> s1
         | Some sid \<Rightarrow>
             if truthy sid
             then (let s2 = s1\<lparr>sessionId := Some sid\<rparr>
                   in case message of
                        None \<Rightarrow> restoreSession now fetched res s2
                      | Some m \<Rightarrow>
                          if truthy m
                          then chat now m (case files of None \<Rightarrow> [] | Some fs \<Rightarrow> fs) res s2
                          else restoreSession now fetched res s2)
             else s1)"

subsection \<open>The tool inspector\<close>

definition isLastNoMessageTool :: "State \<Rightarrow> ToolContent \<Rightarrow> bool" where
  "isLastNoMessageTool s tool =
     (case lastNoMessageTool s of
        None \<Rightarrow> False
      | Some a \<Rightarrow> tool_call_id tool = tool_call_id (heap s ! a))"

text \<open>isLiveTool; \<open>now\<close> is \<open>Date.now()\<close>, in milliseconds.\<close>

definition isLiveTool :: "int \<Rightarrow> State \<Rightarrow> ToolContent \<Rightarrow> bool" where
  "isLiveTool now s tool =
     (if ToolEventData.status tool = Calling then True
      else if \<not> isLastNoMessageTool s tool then False
      else if ToolEventData.timestamp tool > now - 5 * 60 * 1000 then True
      else False)"

text \<open>handleToolClick; the clicked tool is an object of the transcript.\<close>

definition handleToolClick :: "int \<Rightarrow> ToolRef \<Rightarrow> State \<Rightarrow> State" where
  "handleToolClick now tool s =
     (let s1 = s\<lparr>realTime := False\<rparr>
      in case active_session s1 of
           None \<Rightarrow> s1
         | Some sid \<Rightarrow>
             s1\<lparr>effects := effects s1 @
                  [ShowToolPanel tool (isLiveTool now s1 (heap s1 ! tool))]\<rparr>)"

definition jumpToRealTime :: "int \<Rightarrow> State \<Rightarrow> State" where
  "jumpToRealTime now s =
     (let s1 = s\<lparr>realTime := True\<rparr>
      in case lastNoMessageTool s1 of
           None \<Rightarrow> s1
         | Some a \<Rightarrow>
             s1\<lparr>effects := effects s1 @ [ShowToolPanel a (isLiveTool now s1 (heap s1 ! a))]\<rparr>)"

definition handleStop :: "State \<Rightarrow> State" where
  "handleStop s =
     (case active_session s of
        None \<Rightarrow> s
      | Some sid \<Rightarrow> s\<lparr>effects := effects s @ [StopSession sid]\<rparr>)"

text \<open>handleFollow, handleScroll (\<open>at_bottom\<close> is \<open>isScrolledToBottom() ?? false\<close>)\<close>

definition handleFollow :: "State \<Rightarrow> State" where
  "handleFollow s = s\<lparr>follow := True, effects := effects s @ [ScrollToBottom]\<rparr>"

definition handleScroll :: "bool \<Rightarrow> State \<Rightarrow> State" where
  "handleScroll at_bottom s = s\<lparr>follow := at_bottom\<rparr>"

section \<open>Steps of the page that open, settle and cancel channels\<close>

text \<open>
  \<open>chat\<close> suspends at \<open>await agentApi.chatWithSession(...)\<close>: what precedes the
  \<open>await\<close> runs at once, and the assignment of the cancel function (or the \<open>catch\<close>
  block) runs when the call has settled. Other handlers can run in between.
  \<open>chat_start\<close> is \<open>chat\<close> up to the \<open>await\<close>; \<open>chat_settle\<close> is the rest.
\<close>

definition chat_start :: "int \<Rightarrow> string \<Rightarrow> FileInfo list \<Rightarrow> State \<Rightarrow> State" where
  "chat_start now message files s =
     (case active_session s of
        None \<Rightarrow> s
      | Some sid \<Rightarrow> chat_call now sid message files (chat_prepare now message files s))"

text \<open>
  The first statements of onBeforeRouteUpdate, which run on every route change:
  \<open>hideToolPanel()\<close>, \<open>hideFilePanel()\<close>, \<open>resetState()\<close>.
\<close>

definition route_reset :: "State \<Rightarrow> State" where
  "route_reset s = resetState (s\<lparr>effects := effects s @ [HideToolPanel, HideFilePanel]\<rparr>)"

text \<open>
  The steps: \<open>chat\<close> runs to its \<open>await\<close> (from handleSubmit or onMounted, whose
  own code ends there), an awaited open settles, a callback of a channel runs (the channel
  is named with its cancel function), the page is unmounted, a route change resets the
  state.
\<close>

datatype Action =
    ChatStart int string "FileInfo list"
  | ChatSettle OpenResult
  | ChannelOpen CancelFn
  | ChannelMessage CancelFn AgentSSEEvent
  | ChannelClose CancelFn
  | ChannelError CancelFn string
  | Unmounted
  | RouteReset

text \<open>
  Modelled from the spec: \<open>createSSEConnection\<close> (api/client) is not among the sources.
  By the contract of the Event Channel, a channel is live from the moment
  \<open>chatWithSession\<close> resolves to its cancel function until that function is called or
  the channel closes or fails; a channel that is not live delivers nothing. \<open>live\<close> is
  the set of live channels and \<open>awaiting\<close> the number of \<open>chatWithSession\<close> calls
  that have not settled yet.
\<close>

record Sys =
  page :: State
  live :: "CancelFn set"
  awaiting :: nat

text \<open>The calls a stretch of code has added to the log.\<close>

definition new_effects :: "State \<Rightarrow> State \<Rightarrow> Effect list" where
  "new_effects s s' = drop (length (effects s)) (effects s')"

text \<open>The cancel functions called, and the number of opens issued, in a list of calls.\<close>

fun cancelled :: "Effect list \<Rightarrow> CancelFn set" where
  "cancelled [] = {}"
| "cancelled (CancelCall c # es) = insert c (cancelled es)"
| "cancelled (e # es) = cancelled es"

fun opens :: "Effect list \<Rightarrow> nat" where
  "opens [] = 0"
| "opens (ChatWithSession sid m ts cur fs # es) = Suc (opens es)"
| "opens (e # es) = opens es"

text \<open>
  A stretch of code without \<open>await\<close> runs as one step: the channels whose cancel
  function it called are no longer live, and the opens it issued are awaited.
\<close>

definition run_sync :: "(State \<Rightarrow> State) \<Rightarrow> Sys \<Rightarrow> Sys" where
  "run_sync h y =
     \<lparr>page = h (page y),
      live = live y - cancelled (new_effects (page y) (h (page y))),
      awaiting = awaiting y + opens (new_effects (page y) (h (page y)))\<rparr>"

text \<open>
  An awaited open settles: the rest of \<open>chat\<close> runs on the page as it is then, and a
  resolved open is a live channel.
\<close>

definition settle_open :: "OpenResult \<Rightarrow> Sys \<Rightarrow> Sys" where
  "settle_open res y =
     (if awaiting y = 0 then y
      else \<lparr>page = chat_settle res (page y),
            live = (case res of Resolved c \<Rightarrow> insert c (live y) | Rejected err \<Rightarrow> live y),
            awaiting = awaiting y - 1\<rparr>)"

definition run_callback :: "CancelFn \<Rightarrow> bool \<Rightarrow> (State \<Rightarrow> State) \<Rightarrow> Sys \<Rightarrow> Sys" where
  "run_callback c ends h y =
     (if c \<in> live y
      then y\<lparr>page := h (page y), live := (if ends then live y - {c} else live y)\<rparr>
      else y)"

fun perform :: "Action \<Rightarrow> Sys \<Rightarrow> Sys" where
  "perform (ChatStart now m fs) y = run_sync (chat_start now m fs) y"
| "perform (ChatSettle res) y = settle_open res y"
| "perform (ChannelOpen c) y = run_callback c False onOpen y"
| "perform (ChannelMessage c e) y = run_callback c False (onMessage e) y"
| "perform (ChannelClose c) y = run_callback c True onClose y"
| "perform (ChannelError c err) y = run_callback c True (onError err) y"
| "perform Unmounted y = run_sync onUnmounted y"
| "perform RouteReset y = run_sync route_reset y"

fun run :: "Action list \<Rightarrow> Sys \<Rightarrow> Sys" where
  "run [] y = y"
| "run (a # as) y = run as (perform a y)"

text \<open>A page in state \<open>s\<close> with no channel and no open awaited.\<close>

definition quiet :: "State \<Rightarrow> Sys" where
  "quiet s = \<lparr>page = s, live = {}, awaiting = 0\<rparr>"

section \<open>Notions used in the statements\<close>

subsection \<open>Tool entries of a transcript\<close>

text \<open>
  The tool objects a transcript shows, in order of appearance: the object of an entry of
  type tool, and the nested tools of a step.
\<close>

fun content_tools :: "Content \<Rightarrow> ToolRef list" where
  "content_tools (ToolC a) = [a]"
| "content_tools (StepC st) = tools st"
| "content_tools c = []"

definition transcript_tools :: "Message list \<Rightarrow> ToolRef list" where
  "transcript_tools ms = concat (map (\<lambda>m. content_tools (Message.content m)) ms)"

text \<open>The tool entries of the transcript whose \<open>tool_call_id\<close> is \<open>i\<close>.\<close>

definition entries_for :: "State \<Rightarrow> string \<Rightarrow> ToolRef list" where
  "entries_for s i =
     filter (\<lambda>a. tool_call_id (heap s ! a) = i) (transcript_tools (messages s))"

text \<open>The \<open>content\<close> of the last event of a list that carries one.\<close>

fun latest_content :: "ToolEventData list \<Rightarrow> string option" where
  "latest_content [] = None"
| "latest_content (e # es) =
     (case latest_content es of Some c \<Rightarrow> Some c | None \<Rightarrow> ToolEventData.content e)"

text \<open>
  The tracked live tool is the object at \<open>a\<close>, it is the one entry of the transcript
  for \<open>i\<close>, and it holds \<open>t\<close>; the transcript refers to allocated objects only.
\<close>

definition tracked_entry :: "State \<Rightarrow> string \<Rightarrow> ToolRef \<Rightarrow> ToolContent \<Rightarrow> bool" where
  "tracked_entry s i a t =
     (lastTool s = Some a \<and> a < length (heap s) \<and> entries_for s i = [a] \<and>
      heap s ! a = t \<and> tool_call_id t = i \<and>
      (\<forall>x\<in>set (transcript_tools (messages s)). x < length (heap s)))"

text \<open>
  \<open>m\<close> is the last entry of type step of \<open>ms\<close> and holds the step object \<open>st\<close>;
  \<open>before\<close> and \<open>after\<close> are the entries around it.
\<close>

definition decomposes ::
    "Message list \<Rightarrow> StepContent \<Rightarrow> Message list \<Rightarrow> Message \<Rightarrow> Message list \<Rightarrow> bool" where
  "decomposes ms st before m after =
     (ms = before @ m # after \<and> type m = TypeStep \<and> Message.content m = StepC st \<and>
      (\<forall>x\<in>set after. type x \<noteq> TypeStep))"

subsection \<open>Calls and channels\<close>

fun is_ShowToolPanel :: "Effect \<Rightarrow> bool" where
  "is_ShowToolPanel (ShowToolPanel a b) = True"
| "is_ShowToolPanel e = False"

fun is_ShowErrorToast :: "Effect \<Rightarrow> bool" where
  "is_ShowErrorToast (ShowErrorToast msg) = True"
| "is_ShowErrorToast e = False"

text \<open>The call of the stored cancel function, if there is one.\<close>

definition cancel_calls :: "State \<Rightarrow> Effect list" where
  "cancel_calls s = (case cancelCurrentChat s of None \<Rightarrow> [] | Some c \<Rightarrow> [CancelCall c])"

text \<open>What the \<open>catch\<close> block of \<open>chat\<close> logs.\<close>

fun reject_log :: "OpenResult \<Rightarrow> Effect list" where
  "reject_log (Resolved c) = []"
| "reject_log (Rejected err) = [ConsoleError ''Chat error:'' err]"

text \<open>The channels of the stored cancel function: none or one.\<close>

definition stored :: "State \<Rightarrow> CancelFn set" where
  "stored s = (case cancelCurrentChat s of None \<Rightarrow> {} | Some c \<Rightarrow> {c})"

text \<open>Every live channel is the one whose cancel function is stored.\<close>

definition single_channel :: "Sys \<Rightarrow> bool" where
  "single_channel y = (live y \<subseteq> stored (page y))"

text \<open>
  Every awaited open settles before the next step: a \<open>ChatStart\<close> is followed at once
  by its \<open>ChatSettle\<close>.
\<close>

fun settles_at_once :: "Action list \<Rightarrow> bool" where
  "settles_at_once [] = True"
| "settles_at_once (ChatStart now m fs # ChatSettle res # as) = settles_at_once as"
| "settles_at_once (ChatStart now m fs # as) = False"
| "settles_at_once (ChatSettle res # as) = False"
| "settles_at_once (a # as) = settles_at_once as"

text \<open>Every live channel is the stored one, and no open is awaited.\<close>

definition settled :: "Sys \<Rightarrow> bool" where
  "settled y = (single_channel y \<and> awaiting y = 0)"

subsection \<open>The loading indicator and the live flag\<close>

text \<open>The events whose handler sets \<open>isLoading\<close> to false.\<close>

fun clears_loading :: "AgentSSEEvent \<Rightarrow> bool" where
  "clears_loading (ErrorEvent d) = True"
| "clears_loading (StepEvent d) = (StepEventData.status d = Failed)"
| "clears_loading e = False"

text \<open>
  The live flag as the specification words it, for timestamps in seconds: the status is
  calling, or the tool is \<open>lastNoMessageTool\<close> and its timestamp is within the last five
  minutes of the clock (\<open>now\<close>, in milliseconds).
\<close>

definition within_last_5_minutes :: "int \<Rightarrow> int \<Rightarrow> bool" where
  "within_last_5_minutes now ts = (ts > now div 1000 - 5 * 60)"

definition isLiveTool_spec :: "int \<Rightarrow> State \<Rightarrow> ToolContent \<Rightarrow> bool" where
  "isLiveTool_spec now s tool =
     (ToolEventData.status tool = Calling \<or>
      (isLastNoMessageTool s tool \<and>
       within_last_5_minutes now (ToolEventData.timestamp tool)))"

section \<open>Concrete inputs\<close>

definition user_hi :: MessageEventData where
  "user_hi =
     \<lparr>event_id = ''e1'', MessageEventData.role = User, MessageEventData.content = ''hi'',
      MessageEventData.timestamp = 1700000000, MessageEventData.attachments = Some []\<rparr>"

definition error_boom :: ErrorEventData where
  "error_boom = \<lparr>event_id = ''e2'', error = ''boom'', ErrorEventData.timestamp = 1700000001\<rparr>"

definition done_e3 :: BaseEventData where
  "done_e3 = \<lparr>event_id = ''e3''\<rparr>"



definition bash_calling :: ToolEventData where
  "bash_calling =
     \<lparr>event_id = ''e4'', tool_call_id = ''t1'', name = ''bash'', function = ''shell_exec'',
      args = ''ls'', ToolEventData.content = None, ToolEventData.status = Calling,
      ToolEventData.timestamp = 1699999980\<rparr>"

definition bash_called :: ToolEventData where
  "bash_called =
     \<lparr>event_id = ''e5'', tool_call_id = ''t1'', name = ''bash'', function = ''shell_exec'',
      args = ''ls'', ToolEventData.content = Some ''ok'', ToolEventData.status = Called,
      ToolEventData.timestamp = 1699999990\<rparr>"

definition bash_recalled :: ToolEventData where
  "bash_recalled =
     \<lparr>event_id = ''e6'', tool_call_id = ''t1'', name = ''bash'', function = ''shell_exec'',
      args = ''ls'', ToolEventData.content = None, ToolEventData.status = Calling,
      ToolEventData.timestamp = 1699999995\<rparr>"



definition file_f1 :: FileInfo where
  "file_f1 = \<lparr>file_id = ''f1''\<rparr>"

text \<open>A page with a session; the same with the indicator on and a channel open.\<close>

definition session_s1 :: State where
  "session_s1 = createInitialState\<lparr>sessionId := Some ''s1''\<rparr>"

definition loading_s1 :: State where
  "loading_s1 =
     createInitialState\<lparr>sessionId := Some ''s1'', isLoading := True,
       cancelCurrentChat := Some 7\<rparr>"

text \<open>The page after the tool event \<open>bash_called\<close> was folded live.\<close>

definition after_bash :: State where
  "after_bash = handleEvent (ToolEvent bash_called) session_s1"

text \<open>
  The page after two tool events with the same id: first called, with a content, then
  calling, without one.
\<close>

definition after_recall :: State where
  "after_recall =
     handleEvents [ToolEvent bash_called, ToolEvent bash_recalled] createInitialState"

text \<open>The initial page after the tool event \<open>bash_calling\<close>.\<close>

definition after_calling :: State where
  "after_calling = handleEvent (ToolEvent bash_calling) createInitialState"


definition running_session :: GetSessionResponse where
  "running_session =
     \<lparr>events = [ToolEvent bash_called, DoneEvent done_e3],
      GetSessionResponse.status = RUNNING\<rparr>"

text \<open>
  A second message is sent while the open of the first is awaited; then both opens
  resolve.
\<close>

definition overlapping_chats :: "Action list" where
  "overlapping_chats =
     [ChatStart 1700000000000 ''hi'' [], ChatStart 1700000001000 ''again'' [],
      ChatSettle (Resolved 3), ChatSettle (Resolved 4)]"

text \<open>The page is unmounted while an open is awaited; then the open resolves.\<close>

definition unmount_while_opening :: "Action list" where
  "unmount_while_opening =
     [ChatStart 1700000000000 ''hi'' [], Unmounted, ChatSettle (Resolved 3)]"

text \<open>The second message is sent after the first open has resolved.\<close>

definition successive_chats :: "Action list" where
  "successive_chats =
     [ChatStart 1700000000000 ''hi'' [], ChatSettle (Resolved 3),
      ChatStart 1700000001000 ''again'' [], ChatSettle (Resolved 4)]"

section \<open>Properties of the reducer\<close>




text \<open>
  Claim C8. Folding an \<open>error\<close> event sets the loading indicator to false and appends
  exactly one entry of type assistant whose content is the event's error string and whose
  timestamp is the event's timestamp; the tool objects are untouched. In the scenario: a
  user message "hi" (without attachments) followed by the error "boom", folded from the
  initial state, gives the user entry followed by the assistant entry "boom", and the
  loading indicator is false.
\<close>

theorem error_event_appends_assistant_entry:
  "isLoading (handleEvent (ErrorEvent d) s) = False \<and>
   messages (handleEvent (ErrorEvent d) s) = messages s @
     [\<lparr>type = TypeAssistant,
       content = MessageC \<lparr>MessageContent.content = error d,
                           MessageContent.timestamp = ErrorEventData.timestamp d\<rparr>\<rparr>] \<and>
   heap (handleEvent (ErrorEvent d) s) = heap s \<and>
   (MessageEventData.role m = User \<and> MessageEventData.content m = ''hi'' \<and>
    (MessageEventData.attachments m = None \<or> MessageEventData.attachments m = Some []) \<and>
    error d = ''boom'' \<longrightarrow>
    isLoading (handleEvents [MessageEvent m, ErrorEvent d] createInitialState) = False \<and>
    messages (handleEvents [MessageEvent m, ErrorEvent d] createInitialState) =
      [\<lparr>type = TypeUser, content = MessageData m\<rparr>,
       \<lparr>type = TypeAssistant,
        content = MessageC \<lparr>MessageContent.content = ''boom'',
                            MessageContent.timestamp = ErrorEventData.timestamp d\<rparr>\<rparr>])"
  by (auto simp add: handleEvent_def handleErrorEvent_def handleMessageEvent_def
      createInitialState_def)

theorem error_event_appends_assistant_entry_witness:
  "MessageEventData.role user_hi = User \<and> MessageEventData.content user_hi = ''hi'' \<and>
   (MessageEventData.attachments user_hi = None \<or>
    MessageEventData.attachments user_hi = Some []) \<and>
   error error_boom = ''boom'' \<and>
   isLoading (handleEvents [MessageEvent user_hi, ErrorEvent error_boom] createInitialState)
     = False \<and>
   messages (handleEvents [MessageEvent user_hi, ErrorEvent error_boom] createInitialState) =
      [\<lparr>type = TypeUser, content = MessageData user_hi\<rparr>,
       \<lparr>type = TypeAssistant,
        content = MessageC \<lparr>MessageContent.content = ''boom'',
                            MessageContent.timestamp = 1700000001\<rparr>\<rparr>]"
  using error_event_appends_assistant_entry [of error_boom createInitialState user_hi]
  by (simp add: user_hi_def error_boom_def)

section \<open>Properties of the controller\<close>

subsection \<open>The loading indicator\<close>

lemma isLoading_handleEvent:
  "isLoading (handleEvent e s) = (isLoading s \<and> \<not> clears_loading e)"
  by (cases e)
     (auto simp add: handleEvent_def handleMessageEvent_def handleToolEvent_def Let_def
        handleStepEvent_def handleErrorEvent_def handleTitleEvent_def handlePlanEvent_def
        split: option.splits)

lemma isLoading_chat:
  "isLoading (chat now m fs res s) =
     (case active_session s of
        None \<Rightarrow> isLoading s
      | Some sid \<Rightarrow> (case res of Resolved c \<Rightarrow> True | Rejected err \<Rightarrow> False))"
  by (cases res)
     (simp_all add: chat_def chat_call_def chat_prepare_def Let_def split: option.splits)

text \<open>
  Claim C10, as stated, fails: the loading indicator is also cleared by \<open>chat\<close> itself,
  in its \<open>catch\<close> block, when opening the channel fails. Here the indicator is on, and
  after a \<open>chat\<close> whose open is rejected it is off, with no close or error callback and
  no event folded.
\<close>

theorem done_wait_frame_counterexample:
  "isLoading loading_s1 \<and>
   \<not> isLoading (chat 1700000000000 ''hi'' [] (Rejected ''network'') loading_s1)"
  by (simp add: isLoading_chat loading_s1_def active_session_def truthy_def)

text \<open>
  Claim C10, amended. Folding a \<open>done\<close> or a \<open>wait\<close> event changes nothing but the
  resume cursor. Among the folded events, exactly an \<open>error\<close> event and a step event
  with status failed clear the loading indicator. Of the other handlers, the close and
  error callbacks clear it, \<open>chat\<close> clears it when the open is rejected (and sets it
  otherwise, unless there is no session), resetState clears it, the open callback sets
  it, and the remaining handlers leave it as it is.
\<close>

theorem done_wait_only_move_cursor:
  "handleEvent (DoneEvent d) s = s\<lparr>lastEventId := Some (event_id d)\<rparr> \<and>
   handleEvent (WaitEvent d) s = s\<lparr>lastEventId := Some (event_id d)\<rparr> \<and>
   isLoading (handleEvent e s) = (isLoading s \<and> \<not> clears_loading e) \<and>
   isLoading (onOpen s) = True \<and>
   isLoading (onClose s) = False \<and>
   isLoading (onError err s) = False \<and>
   isLoading (chat now m fs res s) =
     (case active_session s of
        None \<Rightarrow> isLoading s
      | Some sid \<Rightarrow> (case res of Resolved c \<Rightarrow> True | Rejected x \<Rightarrow> False)) \<and>
   isLoading (resetState s) = False \<and>
   isLoading (onUnmounted s) = isLoading s \<and>
   isLoading (handleToolClick now a s) = isLoading s \<and>
   isLoading (jumpToRealTime now s) = isLoading s \<and>
   isLoading (handleStop s) = isLoading s \<and>
   isLoading (handleFollow s) = isLoading s \<and>
   isLoading (handleScroll b s) = isLoading s"
proof -
  have 1: "handleEvent (DoneEvent d) s = s\<lparr>lastEventId := Some (event_id d)\<rparr>"
    by (simp add: handleEvent_def)
  have 2: "handleEvent (WaitEvent d) s = s\<lparr>lastEventId := Some (event_id d)\<rparr>"
    by (simp add: handleEvent_def)
  have 3: "isLoading (onOpen s) = True" "isLoading (onClose s) = False"
      "isLoading (onError err s) = False"
    by (simp_all add: onOpen_def onClose_def onError_def Let_def split: option.splits)
  have 4: "isLoading (resetState s) = False"
    by (simp add: resetState_def createInitialState_def Let_def)
  have 5: "isLoading (onUnmounted s) = isLoading s"
    by (simp add: onUnmounted_def cancel_existing_def split: option.splits)
  have 6: "isLoading (handleToolClick now a s) = isLoading s"
      "isLoading (jumpToRealTime now s) = isLoading s"
      "isLoading (handleStop s) = isLoading s"
      "isLoading (handleFollow s) = isLoading s"
      "isLoading (handleScroll b s) = isLoading s"
    by (simp_all add: handleToolClick_def jumpToRealTime_def handleStop_def Let_def
        handleFollow_def handleScroll_def split: option.splits)
  show ?thesis
    using 1 2 3 4 5 6 isLoading_handleEvent [of e s] isLoading_chat [of now m fs res s]
    by simp
qed

theorem done_wait_only_move_cursor_witness:
  "handleEvent (DoneEvent done_e3) loading_s1 = loading_s1\<lparr>lastEventId := Some ''e3''\<rparr> \<and>
   isLoading (handleEvent (DoneEvent done_e3) loading_s1) \<and>
   \<not> isLoading (handleEvent (ErrorEvent error_boom) loading_s1) \<and>
   \<not> isLoading (onClose loading_s1)"
  using done_wait_only_move_cursor [of done_e3 loading_s1 "DoneEvent done_e3"]
    done_wait_only_move_cursor [of done_e3 loading_s1 "ErrorEvent error_boom"]
  by (simp add: done_e3_def loading_s1_def)

subsection \<open>Transport errors\<close>

text \<open>
  Claim C7, as stated, fails: the error callback does not reach the error toast. On a
  page with an open channel, the calls made by the callback contain no
  \<open>showErrorToast\<close>.
\<close>

theorem onError_counterexample:
  "filter is_ShowErrorToast (effects (onError ''network down'' loading_s1)) = []"
  by (simp add: onError_def loading_s1_def createInitialState_def Let_def)

text \<open>
  Claim C7, amended. On a transport error the callback sets the loading indicator to
  false, nulls the stored cancel function, leaves the transcript and the tool objects as
  they are, and reports the error with \<open>console.error\<close> only: no error toast is raised.
  It is a total function of the state, so nothing is thrown.
\<close>

theorem onError_logs_to_console:
  "onError err s =
     s\<lparr>effects := effects s @ [ConsoleError ''Chat error:'' err],
       isLoading := False, cancelCurrentChat := None\<rparr> \<and>
   isLoading (onError err s) = False \<and>
   cancelCurrentChat (onError err s) = None \<and>
   messages (onError err s) = messages s \<and>
   heap (onError err s) = heap s \<and>
   filter is_ShowErrorToast (effects (onError err s)) = filter is_ShowErrorToast (effects s)"
  by (cases "cancelCurrentChat s") (simp_all add: onError_def Let_def)

subsection \<open>Sending a message\<close>

text \<open>
  Claim C6, as stated, fails: a text of two spaces is not empty, and \<open>chat\<close> appends no
  user entry for it, because the test is on the trimmed text.
\<close>

theorem chat_blank_counterexample:
  "''  '' \<noteq> [] \<and> active_session session_s1 = Some ''s1'' \<and>
   messages (chat 1700000000000 ''  '' [] (Resolved 3) session_s1) = messages session_s1"
  by (simp add: chat_def chat_call_def chat_prepare_def Let_def cancel_existing_def
      active_session_def truthy_def trim_def is_whitespace_def session_s1_def
      createInitialState_def)

text \<open>
  Claim C6, amended. Without a session id \<open>chat\<close> does nothing. With one, when
  \<open>chatWithSession\<close> is called the transcript has grown by a user entry if the text is
  not empty after trimming white space, then by an attachments entry if there are
  attachments, FollowMode is true and the loading indicator is true; the call is the last
  one made at that point, and what follows the call changes neither the transcript nor
  FollowMode.
\<close>

theorem chat_appends_before_call:
  "(active_session s0 = None \<longrightarrow> chat now m fs res s0 = s0) \<and>
   (active_session s = Some sid \<longrightarrow>
      messages (chat_prepare now m fs s) = messages s @
        (if truthy (trim m)
         then [\<lparr>type = TypeUser,
                content = MessageC \<lparr>MessageContent.content = m,
                                    MessageContent.timestamp = now div 1000\<rparr>\<rparr>]
         else []) @
        (if fs \<noteq> []
         then [\<lparr>type = TypeAttachments,
                content = AttachmentsC \<lparr>AttachmentsContent.role = User,
                                        AttachmentsContent.attachments = fs\<rparr>\<rparr>]
         else []) \<and>
      follow (chat_prepare now m fs s) = True \<and>
      isLoading (chat_prepare now m fs s) = True \<and>
      chat now m fs res s = chat_settle res (chat_call now sid m fs (chat_prepare now m fs s)) \<and>
      effects (chat_call now sid m fs (chat_prepare now m fs s)) =
        effects (chat_prepare now m fs s) @
        [ChatWithSession sid m (now div 1000) (lastEventId s) (map file_id fs)] \<and>
      messages (chat now m fs res s) = messages (chat_prepare now m fs s) \<and>
      follow (chat now m fs res s) = True)"
  by (cases res; cases "cancelCurrentChat s")
     (simp_all add: chat_def chat_call_def chat_prepare_def Let_def cancel_existing_def)

theorem chat_appends_before_call_witness:
  "active_session createInitialState = None \<and>
   chat 1700000000000 ''hi'' [file_f1] (Resolved 3) createInitialState = createInitialState \<and>
   active_session session_s1 = Some ''s1'' \<and>
   messages (chat 1700000000000 ''hi'' [file_f1] (Resolved 3) session_s1) =
     [\<lparr>type = TypeUser,
       content = MessageC \<lparr>MessageContent.content = ''hi'',
                           MessageContent.timestamp = 1700000000\<rparr>\<rparr>,
      \<lparr>type = TypeAttachments,
       content = AttachmentsC \<lparr>AttachmentsContent.role = User,
                               AttachmentsContent.attachments = [file_f1]\<rparr>\<rparr>]"
proof -
  have a: "active_session createInitialState = None"
    by (simp add: active_session_def createInitialState_def)
  have b: "active_session session_s1 = Some ''s1''"
    by (simp add: active_session_def truthy_def session_s1_def)
  have t: "truthy (trim ''hi'')"
    by (simp add: truthy_def trim_def is_whitespace_def)
  have m: "messages session_s1 = []"
    by (simp add: session_s1_def createInitialState_def)
  note th = chat_appends_before_call [of createInitialState 1700000000000 "''hi''" "[file_f1]"
      "Resolved 3" session_s1 "''s1''"]
  from th a have 1:
    "chat 1700000000000 ''hi'' [file_f1] (Resolved 3) createInitialState = createInitialState"
    by blast
  from th b have 2: "messages (chat 1700000000000 ''hi'' [file_f1] (Resolved 3) session_s1) =
      messages (chat_prepare 1700000000000 ''hi'' [file_f1] session_s1)"
    by blast
  from th b have 3: "messages (chat_prepare 1700000000000 ''hi'' [file_f1] session_s1) =
      messages session_s1 @
        (if truthy (trim ''hi'')
         then [\<lparr>type = TypeUser,
                content = MessageC \<lparr>MessageContent.content = ''hi'',
                                    MessageContent.timestamp = 1700000000000 div 1000\<rparr>\<rparr>]
         else []) @
        (if [file_f1] \<noteq> []
         then [\<lparr>type = TypeAttachments,
                content = AttachmentsC \<lparr>AttachmentsContent.role = User,
                                        AttachmentsContent.attachments = [file_f1]\<rparr>\<rparr>]
         else [])"
    by blast
  show ?thesis
    using a b 1 by (simp add: 2 3 t m)
qed

subsection \<open>The live flag of the inspector\<close>

lemma after_bash_eq:
  "after_bash =
     session_s1\<lparr>messages := [\<lparr>type = TypeTool, content = ToolC 0\<rparr>],
       heap := [bash_called], lastTool := Some 0, lastNoMessageTool := Some 0,
       effects := [ShowToolPanel 0 True], lastEventId := Some ''e5''\<rparr>"
  by (simp add: after_bash_def handleEvent_def handleToolEvent_def Let_def session_s1_def
      createInitialState_def same_as_lastTool_def getLastStep_def bash_called_def)

text \<open>
  Claim C9. The code compares the tool's timestamp, in seconds, with
  \<open>Date.now() - 5 * 60 * 1000\<close>, in milliseconds. The tool \<open>bash_called\<close> is the
  \<open>lastNoMessageTool\<close>, its status is called and its timestamp is ten seconds before the
  clock: the claim's flag is true, \<open>isLiveTool\<close> is false, and it is the false flag that
  handleToolClick passes to the inspector (real-time mode is turned off, as claimed).
\<close>

theorem isLiveTool_units_mismatch:
  "isLiveTool 1700000000000 after_bash (heap after_bash ! 0) = False \<and>
   isLiveTool_spec 1700000000000 after_bash (heap after_bash ! 0) = True \<and>
   effects (handleToolClick 1700000000000 0 after_bash) =
     effects after_bash @ [ShowToolPanel 0 False] \<and>
   realTime (handleToolClick 1700000000000 0 after_bash) = False"
  by (simp add: after_bash_eq isLiveTool_def isLiveTool_spec_def isLastNoMessageTool_def
      within_last_5_minutes_def handleToolClick_def Let_def active_session_def truthy_def
      session_s1_def createInitialState_def bash_called_def)

text \<open>
  With timestamps in seconds that are not in the future, and a clock later than five
  minutes after the epoch, the third test of \<open>isLiveTool\<close> never succeeds: the flag is
  the status test alone.
\<close>

lemma isLiveTool_seconds:
  "300301 \<le> now \<Longrightarrow> ToolEventData.timestamp tool \<le> now div 1000 \<Longrightarrow>
   isLiveTool now s tool = (ToolEventData.status tool = Calling)"
  by (auto simp add: isLiveTool_def)

subsection \<open>Restoring a session\<close>

lemma handleToolEvent_quiet:
  "handleToolEvent d (s\<lparr>effects := E, realTime := False\<rparr>) =
   (handleToolEvent d s)\<lparr>effects := E, realTime := False\<rparr>"
  by (simp add: handleToolEvent_def Let_def same_as_lastTool_def split: option.splits)

lemma handleEvent_quiet:
  "handleEvent e (s\<lparr>effects := E, realTime := False\<rparr>) =
   (handleEvent e s)\<lparr>effects := E, realTime := False\<rparr>"
proof (cases e)
  case (ToolEvent d)
  then show ?thesis by (simp add: handleEvent_def handleToolEvent_quiet)
next
  case (MessageEvent d)
  then show ?thesis
    by (simp add: handleEvent_def handleMessageEvent_def Let_def split: option.splits)
next
  case (StepEvent d)
  then show ?thesis
    by (simp add: handleEvent_def handleStepEvent_def split: option.splits)
qed (simp_all add: handleEvent_def handleErrorEvent_def handleTitleEvent_def handlePlanEvent_def)

lemma handleEvents_quiet:
  "handleEvents es (s\<lparr>effects := E, realTime := False\<rparr>) =
   (handleEvents es s)\<lparr>effects := E, realTime := False\<rparr>"
proof (induction es arbitrary: s)
  case Nil
  show ?case by simp
next
  case (Cons e es)
  show ?case by (simp add: handleEvent_quiet Cons.IH)
qed

lemma handleEvent_session: "sessionId (handleEvent e s) = sessionId s"
  and handleEvent_cancel: "cancelCurrentChat (handleEvent e s) = cancelCurrentChat s"
  by (cases e;
      simp add: handleEvent_def handleMessageEvent_def handleToolEvent_def Let_def
        handleStepEvent_def handleErrorEvent_def handleTitleEvent_def handlePlanEvent_def
        split: option.splits)+

lemma handleEvents_session: "sessionId (handleEvents es s) = sessionId s"
  by (induction es arbitrary: s) (simp_all add: handleEvent_session)

lemma handleEvents_cancel: "cancelCurrentChat (handleEvents es s) = cancelCurrentChat s"
  by (induction es arbitrary: s) (simp_all add: handleEvent_cancel)

lemma replay_eq:
  "replay es s = (handleEvents es s)\<lparr>effects := effects s, realTime := True\<rparr>"
proof -
  have eq: "s\<lparr>realTime := False\<rparr> = s\<lparr>effects := effects s, realTime := False\<rparr>"
    by simp
  have "handleEvents es (s\<lparr>realTime := False\<rparr>) =
      (handleEvents es s)\<lparr>effects := effects s, realTime := False\<rparr>"
    by (subst eq) (rule handleEvents_quiet)
  then show ?thesis
    by (simp add: replay_def)
qed

lemma replay_logged:
  "replay es (s\<lparr>effects := E\<rparr>) = (handleEvents es s)\<lparr>effects := E, realTime := True\<rparr>"
  by (simp add: replay_def handleEvents_quiet)

lemma restoreSession_eq:
  assumes "active_session s = Some sid"
  shows "restoreSession now (Some sess) res s =
    (let s3 = (handleEvents (events sess) s)
                \<lparr>effects := effects s @ [GetSession sid], realTime := True\<rparr>;
         s4 = (if GetSessionResponse.status sess = RUNNING
                  \<or> GetSessionResponse.status sess = PENDING
               then chat now [] [] res s3 else s3)
     in s4\<lparr>effects := effects s4 @ [ClearUnreadMessageCount sid]\<rparr>)"
  using assms by (simp add: restoreSession_def Let_def replay_logged)

lemma chat_empty_fields:
  assumes "active_session s = Some sid"
  shows "messages (chat now [] [] res s) = messages s"
    and "heap (chat now [] [] res s) = heap s"
    and "plan (chat now [] [] res s) = plan s"
    and "State.title (chat now [] [] res s) = State.title s"
    and "lastEventId (chat now [] [] res s) = lastEventId s"
    and "realTime (chat now [] [] res s) = realTime s"
    and "effects (chat now [] [] res s) = effects s @ cancel_calls s @
          [ChatWithSession sid [] (now div 1000) (lastEventId s) []] @ reject_log res"
  using assms
  by (cases res; cases "cancelCurrentChat s";
      simp add: chat_def chat_call_def chat_prepare_def Let_def cancel_existing_def
        trim_def truthy_def cancel_calls_def)+

text \<open>
  Claim C4. With a session id set and the session fetched, restoreSession leaves the
  transcript, the tool objects, the plan, the title and the resume cursor exactly as
  folding the fetched events live does, and real-time mode is on again at the end. The
  replay loop makes no call at all, and restoreSession as a whole adds no
  \<open>showToolPanel\<close> call. If the fetched status is RUNNING or PENDING, the fetch is
  followed by a \<open>chatWithSession\<close> call with the empty message, the cursor reached by
  the replay and no attachments (after the stored cancel function, if any, was called);
  with another status no channel is opened.
\<close>

theorem restoreSession_replays_quietly:
  assumes "active_session s = Some sid"
  shows "messages (restoreSession now (Some sess) res s) = messages (handleEvents (events sess) s) \<and>
     heap (restoreSession now (Some sess) res s) = heap (handleEvents (events sess) s) \<and>
     plan (restoreSession now (Some sess) res s) = plan (handleEvents (events sess) s) \<and>
     State.title (restoreSession now (Some sess) res s) =
       State.title (handleEvents (events sess) s) \<and>
     lastEventId (restoreSession now (Some sess) res s) =
       lastEventId (handleEvents (events sess) s) \<and>
     realTime (restoreSession now (Some sess) res s) = True \<and>
     effects (replay (events sess) s) = effects s \<and>
     filter is_ShowToolPanel (effects (restoreSession now (Some sess) res s)) =
       filter is_ShowToolPanel (effects s) \<and>
     effects (restoreSession now (Some sess) res s) =
       effects s @ [GetSession sid] @
       (if GetSessionResponse.status sess = RUNNING \<or> GetSessionResponse.status sess = PENDING
        then cancel_calls s @
             [ChatWithSession sid [] (now div 1000)
                (lastEventId (handleEvents (events sess) s)) []] @
             reject_log res
        else []) @
       [ClearUnreadMessageCount sid]"
proof -
  let ?s3 = "(handleEvents (events sess) s)
               \<lparr>effects := effects s @ [GetSession sid], realTime := True\<rparr>"
  have act: "active_session ?s3 = Some sid"
    using assms by (simp add: active_session_def handleEvents_session)
  have cc: "cancel_calls ?s3 = cancel_calls s"
    by (simp add: cancel_calls_def handleEvents_cancel)
  have tp: "filter is_ShowToolPanel (cancel_calls s) = []"
    "filter is_ShowToolPanel (reject_log res) = []"
    by (cases "cancelCurrentChat s"; cases res; simp add: cancel_calls_def)+
  show ?thesis
    using chat_empty_fields [OF act, of now res] cc tp
    by (simp add: restoreSession_eq [OF assms] Let_def replay_eq)
qed

lemma running_session_fold:
  "handleEvents (events running_session) session_s1 = after_bash\<lparr>lastEventId := Some ''e3''\<rparr>"
proof -
  have "handleEvents (events running_session) session_s1 =
      handleEvent (DoneEvent done_e3) after_bash"
    by (simp add: running_session_def after_bash_def)
  also have "\<dots> = after_bash\<lparr>lastEventId := Some ''e3''\<rparr>"
    by (simp add: handleEvent_def done_e3_def)
  finally show ?thesis .
qed

theorem restoreSession_replays_quietly_witness:
  "active_session session_s1 = Some ''s1'' \<and>
   messages (restoreSession 1700000000000 (Some running_session) (Resolved 3) session_s1) =
     [\<lparr>type = TypeTool, content = ToolC 0\<rparr>] \<and>
   effects (handleEvents (events running_session) session_s1) = [ShowToolPanel 0 True] \<and>
   effects (restoreSession 1700000000000 (Some running_session) (Resolved 3) session_s1) =
     [GetSession ''s1'', ChatWithSession ''s1'' [] 1700000000 (Some ''e3'') [],
      ClearUnreadMessageCount ''s1'']"
proof -
  have a: "active_session session_s1 = Some ''s1''"
    by (simp add: active_session_def truthy_def session_s1_def)
  have s: "effects session_s1 = []" "cancel_calls session_s1 = []"
    by (simp_all add: session_s1_def createInitialState_def cancel_calls_def)
  have r: "GetSessionResponse.status running_session = RUNNING"
    by (simp add: running_session_def)
  show ?thesis
    using restoreSession_replays_quietly [OF a, of 1700000000000 running_session "Resolved 3"] a
    by (simp add: running_session_fold s r after_bash_eq)
qed

subsection \<open>One channel at a time\<close>

text \<open>
  What each operation does with the stored cancel function: \<open>chat\<close> calls it, if
  any, and the stored handle is null when \<open>chatWithSession\<close> is called; unmounting,
  resetState and every route change call it, if any, and leave the handle null.
\<close>

lemma chat_calls:
  assumes "active_session s = Some sid"
  shows "cancelCurrentChat (chat_prepare now m fs s) = None"
    and "effects (chat_prepare now m fs s) = effects s @ cancel_calls s"
    and "effects (chat now m fs res s) = effects s @ cancel_calls s @
          [ChatWithSession sid m (now div 1000) (lastEventId s) (map file_id fs)] @
          reject_log res"
    and "cancelCurrentChat (chat now m fs res s) =
          (case res of Resolved c \<Rightarrow> Some c | Rejected err \<Rightarrow> None)"
  using assms
  by (cases res; cases "cancelCurrentChat s";
      simp add: chat_def chat_call_def chat_prepare_def Let_def cancel_existing_def
        cancel_calls_def)+

lemma teardown_calls:
  "effects (onUnmounted s) = effects s @ cancel_calls s"
  "cancelCurrentChat (onUnmounted s) = None"
  "effects (resetState s) = effects s @ cancel_calls s"
  "cancelCurrentChat (resetState s) = None"
  by (cases "cancelCurrentChat s";
      simp add: onUnmounted_def cancel_existing_def resetState_def cancel_calls_def
        createInitialState_def)+

lemma route_reset_calls:
  "effects (route_reset s) = effects s @ [HideToolPanel, HideFilePanel] @ cancel_calls s"
  "cancelCurrentChat (route_reset s) = None"
  by (simp_all add: route_reset_def teardown_calls cancel_calls_def)

lemma onBeforeRouteUpdate_resets:
  "onBeforeRouteUpdate to now fetched res s =
     (case to of
        None \<Rightarrow> route_reset s
      | Some sid \<Rightarrow>
          if truthy sid
          then restoreSession now fetched res
                 ((route_reset s)\<lparr>messages := [], sessionId := Some sid\<rparr>)
          else route_reset s)"
  by (cases to) (simp_all add: onBeforeRouteUpdate_def route_reset_def Let_def)

lemma chat_in_two_steps:
  "chat now m fs res s =
     (case active_session s of
        None \<Rightarrow> s
      | Some sid \<Rightarrow> chat_settle res (chat_start now m fs s))"
  by (simp add: chat_def chat_start_def split: option.splits)

lemma chat_start_calls:
  "effects (chat_start now m fs s) =
     effects s @
     (case active_session s of
        None \<Rightarrow> []
      | Some sid \<Rightarrow>
          cancel_calls s @
          [ChatWithSession sid m (now div 1000) (lastEventId s) (map file_id fs)])"
  "cancelCurrentChat (chat_start now m fs s) =
     (case active_session s of None \<Rightarrow> cancelCurrentChat s | Some sid \<Rightarrow> None)"
  by (cases "cancelCurrentChat s";
      simp add: chat_start_def chat_call_def chat_prepare_def Let_def cancel_existing_def
        cancel_calls_def split: option.splits)+

lemma new_effects_append: "effects s' = effects s @ d \<Longrightarrow> new_effects s s' = d"
  by (simp add: new_effects_def)

lemma cancel_calls_cancelled: "cancelled (cancel_calls s) = stored s"
  and cancel_calls_opens: "opens (cancel_calls s) = 0"
  by (simp_all add: cancel_calls_def stored_def split: option.splits)

lemma cancelled_append: "cancelled (xs @ ys) = cancelled xs \<union> cancelled ys"
  by (induction xs rule: cancelled.induct) simp_all

lemma opens_append: "opens (xs @ ys) = opens xs + opens ys"
  by (induction xs rule: opens.induct) simp_all

text \<open>
  As long as every awaited open settles before the next step, every live channel is the
  stored one.
\<close>

lemma settled_chat:
  assumes "settled y"
  shows "settled (settle_open res (run_sync (chat_start now m fs) y))"
proof (cases "active_session (page y)")
  case None
  then have "chat_start now m fs (page y) = page y"
    by (simp add: chat_start_def)
  then have "run_sync (chat_start now m fs) y = y"
    by (simp add: run_sync_def new_effects_def)
  then show ?thesis
    using assms by (simp add: settle_open_def settled_def)
next
  case (Some sid)
  let ?call = "ChatWithSession sid m (now div 1000) (lastEventId (page y)) (map file_id fs)"
  have e: "new_effects (page y) (chat_start now m fs (page y)) = cancel_calls (page y) @ [?call]"
    using Some by (intro new_effects_append) (simp add: chat_start_calls)
  have l: "live y - stored (page y) = {}"
    using assms by (auto simp add: settled_def single_channel_def)
  have 1: "run_sync (chat_start now m fs) y =
      \<lparr>page = chat_start now m fs (page y), live = {}, awaiting = 1\<rparr>"
    using assms
    by (simp add: run_sync_def e cancelled_append opens_append cancel_calls_cancelled
        cancel_calls_opens l settled_def)
  show ?thesis
    by (cases res) (simp_all add: 1 settle_open_def settled_def single_channel_def stored_def)
qed

lemma settled_run_sync:
  assumes "settled y" and "effects (h (page y)) = effects (page y) @ d @ cancel_calls (page y)"
    and "cancelled d = {}" and "opens d = 0" and "cancelCurrentChat (h (page y)) = None"
  shows "settled (run_sync h y)"
proof -
  have e: "new_effects (page y) (h (page y)) = d @ cancel_calls (page y)"
    using assms(2) by (intro new_effects_append) simp
  have l: "live y - stored (page y) = {}"
    using assms(1) by (auto simp add: settled_def single_channel_def)
  show ?thesis
    using assms(1,3,4,5)
    by (simp add: run_sync_def e cancelled_append opens_append cancel_calls_cancelled
        cancel_calls_opens l settled_def single_channel_def)
qed

lemma settled_run_callback:
  assumes "settled y"
    and "cancelCurrentChat (h (page y)) = cancelCurrentChat (page y) \<or> ends"
  shows "settled (run_callback c ends h y)"
  using assms
  by (auto simp add: settled_def single_channel_def run_callback_def stored_def
      split: option.splits)

lemma settled_steps:
  assumes "settled y"
  shows "settled (run_callback c False onOpen y)"
    and "settled (run_callback c False (onMessage e) y)"
    and "settled (run_callback c True onClose y)"
    and "settled (run_callback c True (onError err) y)"
    and "settled (run_sync onUnmounted y)"
    and "settled (run_sync route_reset y)"
proof -
  show "settled (run_callback c False onOpen y)"
    using assms by (simp add: settled_run_callback onOpen_def)
  show "settled (run_callback c False (onMessage e) y)"
    using assms by (simp add: settled_run_callback onMessage_def handleEvent_cancel)
  show "settled (run_callback c True onClose y)"
    using assms by (simp add: settled_run_callback)
  show "settled (run_callback c True (onError err) y)"
    using assms by (simp add: settled_run_callback)
  show "settled (run_sync onUnmounted y)"
    by (rule settled_run_sync [where d = "[]", OF assms]) (simp_all add: teardown_calls)
  show "settled (run_sync route_reset y)"
    by (rule settled_run_sync [where d = "[HideToolPanel, HideFilePanel]", OF assms])
       (simp_all add: route_reset_calls)
qed

lemma settled_run:
  "settles_at_once as \<Longrightarrow> settled y \<Longrightarrow> settled (run as y)"
  by (induction as arbitrary: y rule: settles_at_once.induct)
     (simp_all add: settled_chat settled_steps)

lemma settled_quiet: "settled (quiet s)"
  by (simp add: settled_def quiet_def single_channel_def)

lemma overlapping_chats_run:
  "run overlapping_chats (quiet session_s1) =
     \<lparr>page = session_s1\<lparr>
        messages :=
          [\<lparr>type = TypeUser,
            content = MessageC \<lparr>MessageContent.content = ''hi'',
                                MessageContent.timestamp = 1700000000\<rparr>\<rparr>,
           \<lparr>type = TypeUser,
            content = MessageC \<lparr>MessageContent.content = ''again'',
                                MessageContent.timestamp = 1700000001\<rparr>\<rparr>],
        isLoading := True, cancelCurrentChat := Some 4,
        effects :=
          [ChatWithSession ''s1'' ''hi'' 1700000000 None [],
           ChatWithSession ''s1'' ''again'' 1700000001 None []]\<rparr>,
      live = {3, 4}, awaiting = 0\<rparr>"
  by (simp add: overlapping_chats_def quiet_def run_sync_def settle_open_def new_effects_def
      chat_start_def chat_call_def chat_prepare_def Let_def cancel_existing_def
      active_session_def truthy_def trim_def is_whitespace_def session_s1_def
      createInitialState_def insert_commute)

lemma unmount_while_opening_run:
  "run unmount_while_opening (quiet session_s1) =
     \<lparr>page = session_s1\<lparr>
        messages :=
          [\<lparr>type = TypeUser,
            content = MessageC \<lparr>MessageContent.content = ''hi'',
                                MessageContent.timestamp = 1700000000\<rparr>\<rparr>],
        isLoading := True, cancelCurrentChat := Some 3,
        effects := [ChatWithSession ''s1'' ''hi'' 1700000000 None []]\<rparr>,
      live = {3}, awaiting = 0\<rparr>"
  by (simp add: unmount_while_opening_def quiet_def run_sync_def settle_open_def
      new_effects_def onUnmounted_def
      chat_start_def chat_call_def chat_prepare_def Let_def cancel_existing_def
      active_session_def truthy_def trim_def is_whitespace_def session_s1_def
      createInitialState_def)

lemma successive_chats_run:
  "live (run successive_chats (quiet session_s1)) = {4}"
  "effects (page (run successive_chats (quiet session_s1))) =
     [ChatWithSession ''s1'' ''hi'' 1700000000 None [], CancelCall 3,
      ChatWithSession ''s1'' ''again'' 1700000001 None []]"
  by (simp_all add: successive_chats_def quiet_def run_sync_def settle_open_def new_effects_def
      chat_start_def chat_call_def chat_prepare_def Let_def cancel_existing_def
      active_session_def truthy_def trim_def is_whitespace_def session_s1_def
      createInitialState_def)

text \<open>
  Claim C5. The stored handle is assigned only after \<open>await chatWithSession\<close>, so a
  step that runs while an open is awaited finds the handle null and cancels nothing. A
  second \<open>chat\<close> started before the first open has settled logs two
  \<open>chatWithSession\<close> calls and no cancel call; once both opens have resolved, the
  channels 3 and 4 are both live and only 4 is stored. Unmounting while an open is awaited
  cancels nothing, and the channel is live afterwards. When the second \<open>chat\<close> starts
  after the first open has resolved, channel 3 is cancelled and only 4 is live.
\<close>

theorem overlapping_opens_leave_two_channels:
  "live (run overlapping_chats (quiet session_s1)) = {3, 4} \<and>
   card (live (run overlapping_chats (quiet session_s1))) = 2 \<and>
   cancelCurrentChat (page (run overlapping_chats (quiet session_s1))) = Some 4 \<and>
   effects (page (run overlapping_chats (quiet session_s1))) =
     [ChatWithSession ''s1'' ''hi'' 1700000000 None [],
      ChatWithSession ''s1'' ''again'' 1700000001 None []] \<and>
   live (run unmount_while_opening (quiet session_s1)) = {3} \<and>
   effects (page (run unmount_while_opening (quiet session_s1))) =
     [ChatWithSession ''s1'' ''hi'' 1700000000 None []] \<and>
   live (run successive_chats (quiet session_s1)) = {4} \<and>
   effects (page (run successive_chats (quiet session_s1))) =
     [ChatWithSession ''s1'' ''hi'' 1700000000 None [], CancelCall 3,
      ChatWithSession ''s1'' ''again'' 1700000001 None []]"
  by (simp add: overlapping_chats_run unmount_while_opening_run successive_chats_run)

lemma settled_successive: "settled (run successive_chats (quiet session_s1))"
  by (rule settled_run) (simp_all add: successive_chats_def settled_quiet)

section \<open>Tool entries of the transcript\<close>

subsection \<open>Nesting under the running step\<close>

lemma getLastStep_snoc:
  "getLastStep (ms @ [m]) = (if type m = TypeStep then Some (Message.content m) else getLastStep ms)"
  by (simp add: getLastStep_def)


lemma getLastStep_Nil: "getLastStep [] = None"
  by (simp add: getLastStep_def)

lemma handleToolEvent_new:
  assumes "same_as_lastTool s t = None"
  shows "messages (handleToolEvent t s) =
     (if lastStep_running (getLastStep (messages s))
      then update_last_step (\<lambda>st. st\<lparr>tools := tools st @ [length (heap s)]\<rparr>) (messages s)
      else messages s @ [\<lparr>type = TypeTool, content = ToolC (length (heap s))\<rparr>])"
    and "heap (handleToolEvent t s) = heap s @ [t]"
    and "lastTool (handleToolEvent t s) = Some (length (heap s))"
  using assms by (simp_all add: handleToolEvent_def Let_def)

lemma handleToolEvent_same:
  assumes "same_as_lastTool s t = Some a"
  shows "messages (handleToolEvent t s) = messages s"
    and "heap (handleToolEvent t s) = (heap s @ [t])[a := Object_assign ((heap s @ [t]) ! a) t]"
    and "lastTool (handleToolEvent t s) = lastTool s"
  using assms by (simp_all add: handleToolEvent_def Let_def)

lemma lastStep_running_cases:
  "lastStep_running c = (\<exists>st. c = Some (StepC st) \<and> StepEventData.status st = Running)"
  by (cases c rule: lastStep_running.cases) simp_all

lemma update_last_step_decomposes:
  assumes "decomposes ms st before m after"
  shows "update_last_step f ms = before @ m\<lparr>Message.content := StepC (f st)\<rparr> # after"
proof -
  have "update_first_step f (rev after @ m # rev before) =
        rev after @ m\<lparr>Message.content := StepC (f st)\<rparr> # rev before"
    if "\<forall>x\<in>set after. type x \<noteq> TypeStep" "type m = TypeStep" "Message.content m = StepC st"
    for after
    using that by (induction after rule: rev_induct) simp_all
  then show ?thesis
    using assms by (simp add: decomposes_def update_last_step_def)
qed

lemma last_step_decomp:
  assumes "getLastStep ms = Some (StepC st)"
  shows "\<exists>before m after. decomposes ms st before m after"
  using assms
proof (induction ms rule: rev_induct)
  case Nil
  then show ?case by (simp add: getLastStep_Nil)
next
  case (snoc x xs)
  show ?case
  proof (cases "type x = TypeStep")
    case True
    with snoc.prems have c: "Message.content x = StepC st"
      by (simp add: getLastStep_snoc)
    have "decomposes (xs @ [x]) st xs x []"
      using True c by (simp add: decomposes_def)
    then show ?thesis by (intro exI)
  next
    case False
    with snoc.prems have "getLastStep xs = Some (StepC st)"
      by (simp add: getLastStep_snoc)
    from snoc.IH [OF this] obtain before m after where
      d: "decomposes xs st before m after"
      by (elim exE)
    have "decomposes (xs @ [x]) st before m (after @ [x])"
      using d False by (simp add: decomposes_def)
    then show ?thesis by (intro exI)
  qed
qed






subsection \<open>One entry for each tool call\<close>

lemma tool_call_id_Object_assign: "tool_call_id (Object_assign t e) = tool_call_id e"
  by (simp add: Object_assign_def split: option.splits)

lemma transcript_tools_append:
  "transcript_tools (xs @ ys) = transcript_tools xs @ transcript_tools ys"
  by (simp add: transcript_tools_def)

lemma transcript_tools_Cons:
  "transcript_tools (m # ms) = content_tools (Message.content m) @ transcript_tools ms"
  by (simp add: transcript_tools_def)

lemma transcript_tools_new:
  assumes "same_as_lastTool s t = None"
  shows "\<exists>xs ys. transcript_tools (messages s) = xs @ ys \<and>
           transcript_tools (messages (handleToolEvent t s)) = xs @ length (heap s) # ys"
proof (cases "lastStep_running (getLastStep (messages s))")
  case False
  then have "transcript_tools (messages (handleToolEvent t s)) =
      transcript_tools (messages s) @ length (heap s) # []"
    using assms by (simp add: handleToolEvent_new transcript_tools_append transcript_tools_Cons
        transcript_tools_def [of "[]"])
  moreover have "transcript_tools (messages s) = transcript_tools (messages s) @ []" by simp
  ultimately show ?thesis by (intro exI conjI)
next
  case True
  then obtain st where st: "getLastStep (messages s) = Some (StepC st)"
    unfolding lastStep_running_cases by (elim exE conjE)
  from last_step_decomp [OF st] obtain before m after where
    d: "decomposes (messages s) st before m after"
    by (elim exE)
  let ?xs = "transcript_tools before @ tools st"
  let ?ys = "transcript_tools after"
  have 1: "transcript_tools (messages s) = ?xs @ ?ys"
    using d by (simp add: decomposes_def transcript_tools_append transcript_tools_Cons)
  have 2: "transcript_tools (messages (handleToolEvent t s)) = ?xs @ length (heap s) # ?ys"
    using assms True
    by (simp add: handleToolEvent_new update_last_step_decomposes [OF d]
        transcript_tools_append transcript_tools_Cons)
  from 1 2 show ?thesis by (intro exI conjI)
qed

lemma first_event_tracked:
  assumes new: "same_as_lastTool s t = None"
    and wf: "\<forall>x\<in>set (transcript_tools (messages s)).
               x < length (heap s) \<and> tool_call_id (heap s ! x) \<noteq> tool_call_id t"
  shows "tracked_entry (handleEvent (ToolEvent t) s) (tool_call_id t) (length (heap s)) t"
proof -
  let ?s' = "handleToolEvent t s"
  let ?a = "length (heap s)"
  from transcript_tools_new [OF new] obtain xs ys where
    tt: "transcript_tools (messages s) = xs @ ys"
        "transcript_tools (messages ?s') = xs @ ?a # ys"
    by (elim exE conjE)
  have h: "heap ?s' = heap s @ [t]" and l: "lastTool ?s' = Some ?a"
    using new by (simp_all add: handleToolEvent_new)
  have old: "x < ?a \<and> tool_call_id ((heap s @ [t]) ! x) \<noteq> tool_call_id t"
    if "x \<in> set xs \<union> set ys" for x
    using that wf tt(1) by (auto simp add: nth_append)
  have f: "filter (\<lambda>a. tool_call_id ((heap s @ [t]) ! a) = tool_call_id t) zs = []"
    if "set zs \<subseteq> set xs \<union> set ys" for zs
    using that old by (auto simp add: filter_empty_conv)
  have e: "entries_for ?s' (tool_call_id t) = [?a]"
    by (simp add: entries_for_def tt(2) h f)
  have b: "\<forall>x\<in>set (transcript_tools (messages ?s')). x < length (heap ?s')"
    using old by (auto simp add: tt(2) h intro: less_SucI)
  have "tracked_entry ?s' (tool_call_id t) ?a t"
    unfolding tracked_entry_def using e b l by (simp add: h)
  then show ?thesis
    by (simp add: handleEvent_def tracked_entry_def entries_for_def)
qed

lemma later_event_tracked:
  assumes tr: "tracked_entry s i a t" and id: "tool_call_id e = i"
  shows "tracked_entry (handleEvent (ToolEvent e) s) i a (Object_assign t e)"
    and "messages (handleEvent (ToolEvent e) s) = messages s"
proof -
  let ?s' = "handleToolEvent e s"
  from tr have l: "lastTool s = Some a" and a: "a < length (heap s)" and t: "heap s ! a = t"
    and ti: "tool_call_id t = i" and en: "entries_for s i = [a]"
    and b: "\<forall>x\<in>set (transcript_tools (messages s)). x < length (heap s)"
    by (simp_all add: tracked_entry_def)
  have same: "same_as_lastTool s e = Some a"
    using l t ti id by (simp add: same_as_lastTool_def)
  have m: "messages ?s' = messages s" and l': "lastTool ?s' = Some a"
    and h: "heap ?s' = (heap s @ [e])[a := Object_assign t e]"
    using a t l by (simp_all add: handleToolEvent_same [OF same] nth_append)
  have p: "(tool_call_id (heap ?s' ! x) = i) = (tool_call_id (heap s ! x) = i)"
    if "x \<in> set (transcript_tools (messages s))" for x
  proof (cases "x = a")
    case True
    then show ?thesis using a t ti id by (simp add: h tool_call_id_Object_assign)
  next
    case False
    then show ?thesis using that b by (simp add: h nth_append)
  qed
  have e': "entries_for ?s' i = [a]"
    using en p by (simp add: entries_for_def m cong: filter_cong)
  have "tracked_entry ?s' i a (Object_assign t e)"
    unfolding tracked_entry_def
    using e' l' a b id by (auto simp add: h m tool_call_id_Object_assign)
  then show "tracked_entry (handleEvent (ToolEvent e) s) i a (Object_assign t e)"
    by (simp add: handleEvent_def tracked_entry_def entries_for_def)
  show "messages (handleEvent (ToolEvent e) s) = messages s"
    by (simp add: handleEvent_def m)
qed

lemma later_events_tracked:
  assumes "tracked_entry s i a t" and "\<forall>e\<in>set es. tool_call_id e = i"
  shows "tracked_entry (handleEvents (map ToolEvent es) s) i a (foldl Object_assign t es)"
  using assms
proof (induction es arbitrary: s t)
  case Nil
  then show ?case by simp
next
  case (Cons e es)
  have "tracked_entry (handleEvent (ToolEvent e) s) i a (Object_assign t e)"
    using Cons.prems by (simp add: later_event_tracked(1))
  then show ?case using Cons.IH Cons.prems(2) by simp
qed

lemma Object_assign_cases:
  "ToolEventData.content e = None \<Longrightarrow>
     Object_assign t e = e\<lparr>ToolEventData.content := ToolEventData.content t\<rparr>"
  "ToolEventData.content e = Some c \<Longrightarrow> Object_assign t e = e"
  by (simp_all add: Object_assign_def)

lemma foldl_Object_assign:
  "foldl Object_assign t es =
     (last (t # es))\<lparr>ToolEventData.content := latest_content (t # es)\<rparr>"
proof (induction es arbitrary: t)
  case Nil
  show ?case by (simp split: option.splits)
next
  case (Cons e es)
  show ?case
  proof (cases "ToolEventData.content e")
    case None
    then show ?thesis
      by (simp add: Cons.IH Object_assign_cases(1) split: option.splits)
  next
    case (Some c)
    then show ?thesis
      by (simp add: Cons.IH Object_assign_cases(2) split: option.splits)
  qed
qed


lemma after_recall_eq:
  "after_recall =
     createInitialState\<lparr>messages := [\<lparr>type = TypeTool, content = ToolC 0\<rparr>],
       heap := [bash_recalled\<lparr>ToolEventData.content := Some ''ok''\<rparr>, bash_recalled],
       lastTool := Some 0, lastNoMessageTool := Some 1,
       effects := [ShowToolPanel 0 True, ShowToolPanel 1 True],
       lastEventId := Some ''e6''\<rparr>"
  by (simp add: after_recall_def handleEvent_def handleToolEvent_def Let_def
      createInitialState_def same_as_lastTool_def getLastStep_def Object_assign_def
      bash_called_def bash_recalled_def)

text \<open>
  Claim C1, as stated, fails on the fields: \<open>Object.assign\<close> copies the keys the
  later event has, and \<open>content\<close> is optional. After a called event with content "ok"
  and a calling event without content, both for "t1", the one entry for "t1" still has the
  content "ok", which the last event applied does not have.
\<close>

theorem dedup_fields_counterexample:
  "tool_call_id bash_called = tool_call_id bash_recalled \<and>
   entries_for after_recall ''t1'' = [0] \<and>
   ToolEventData.content (heap after_recall ! 0) = Some ''ok'' \<and>
   ToolEventData.content bash_recalled = None"
  by (simp add: after_recall_eq entries_for_def transcript_tools_def)
     (simp add: bash_called_def bash_recalled_def)

text \<open>
  Claim C1, amended. Take a non-empty list of tool events with the same \<open>tool_call_id\<close>
  and fold it into a page whose transcript has no entry for that id, whose tracked live
  tool (if any) has another id, and whose transcript refers to allocated tool objects
  only (the initial page is one). Afterwards the transcript has exactly one tool entry for
  the id, top-level or nested in a step; every field of its object other than
  \<open>content\<close> is that of the last event, and its \<open>content\<close> is that of the last
  event of the list that carried one. In particular an event with the id of the tracked
  live tool leaves the transcript as it is and updates the tracked object in place.
\<close>

theorem one_entry_per_tool_call_id:
  "(es \<noteq> [] \<and> (\<forall>e\<in>set es. tool_call_id e = i) \<and>
    same_as_lastTool s (hd es) = None \<and>
    (\<forall>x\<in>set (transcript_tools (messages s)).
       x < length (heap s) \<and> tool_call_id (heap s ! x) \<noteq> i) \<longrightarrow>
      entries_for (handleEvents (map ToolEvent es) s) i = [length (heap s)] \<and>
      heap (handleEvents (map ToolEvent es) s) ! length (heap s) =
        (last es)\<lparr>ToolEventData.content := latest_content es\<rparr>) \<and>
   (tracked_entry s' i' a t \<and> tool_call_id e = i' \<longrightarrow>
      messages (handleEvent (ToolEvent e) s') = messages s' \<and>
      tracked_entry (handleEvent (ToolEvent e) s') i' a (Object_assign t e))"
proof (intro conjI impI)
  assume a: "es \<noteq> [] \<and> (\<forall>e\<in>set es. tool_call_id e = i) \<and>
    same_as_lastTool s (hd es) = None \<and>
    (\<forall>x\<in>set (transcript_tools (messages s)).
       x < length (heap s) \<and> tool_call_id (heap s ! x) \<noteq> i)"
  then obtain e1 rest where es: "es = e1 # rest"
    by (cases es) simp_all
  from a es have i: "tool_call_id e1 = i" and r: "\<forall>e\<in>set rest. tool_call_id e = i"
    and n: "same_as_lastTool s e1 = None"
    by simp_all
  have wf: "\<forall>x\<in>set (transcript_tools (messages s)).
      x < length (heap s) \<and> tool_call_id (heap s ! x) \<noteq> tool_call_id e1"
    using a i by simp
  have 1: "tracked_entry (handleEvent (ToolEvent e1) s) i (length (heap s)) e1"
    using first_event_tracked [OF n wf] i by simp
  have 2: "tracked_entry (handleEvents (map ToolEvent es) s) i (length (heap s))
      (foldl Object_assign e1 rest)"
    using later_events_tracked [OF 1 r] by (simp add: es)
  from 2 show "entries_for (handleEvents (map ToolEvent es) s) i = [length (heap s)]"
    by (simp add: tracked_entry_def)
  from 2 have "heap (handleEvents (map ToolEvent es) s) ! length (heap s) =
      foldl Object_assign e1 rest"
    by (simp add: tracked_entry_def)
  then show "heap (handleEvents (map ToolEvent es) s) ! length (heap s) =
        (last es)\<lparr>ToolEventData.content := latest_content es\<rparr>"
    by (simp only: foldl_Object_assign es)
next
  assume a: "tracked_entry s' i' a t \<and> tool_call_id e = i'"
  then show "messages (handleEvent (ToolEvent e) s') = messages s'"
    by (simp add: later_event_tracked(2) [of s' i' a t e])
  from a show "tracked_entry (handleEvent (ToolEvent e) s') i' a (Object_assign t e)"
    by (simp add: later_event_tracked(1))
qed


lemma after_calling_eq:
  "after_calling =
     createInitialState\<lparr>messages := [\<lparr>type = TypeTool, content = ToolC 0\<rparr>],
       heap := [bash_calling], lastTool := Some 0, lastNoMessageTool := Some 0,
       effects := [ShowToolPanel 0 True], lastEventId := Some ''e4''\<rparr>"
  by (simp add: after_calling_def handleEvent_def handleToolEvent_def Let_def
      createInitialState_def same_as_lastTool_def getLastStep_def bash_calling_def)

theorem one_entry_per_tool_call_id_witness:
  "[bash_calling, bash_called] \<noteq> [] \<and>
   tool_call_id bash_calling = ''t1'' \<and>
   same_as_lastTool createInitialState (hd [bash_calling, bash_called]) = None \<and>
   transcript_tools (messages createInitialState) = [] \<and>
   tracked_entry after_calling ''t1'' 0 bash_calling \<and>
   tool_call_id bash_called = ''t1'' \<and>
   entries_for (handleEvents (map ToolEvent [bash_calling, bash_called]) createInitialState)
     ''t1'' = [0] \<and>
   heap (handleEvents (map ToolEvent [bash_calling, bash_called]) createInitialState) ! 0 =
     bash_called \<and>
   messages (handleEvent (ToolEvent bash_called) after_calling) = messages after_calling \<and>
   tracked_entry (handleEvent (ToolEvent bash_called) after_calling) ''t1'' 0 bash_called"
proof -
  let ?es = "[bash_calling, bash_called]"
  have h1: "?es \<noteq> []" by simp
  have h2: "\<forall>e\<in>set ?es. tool_call_id e = ''t1''"
    by (simp add: bash_calling_def bash_called_def)
  have h3: "same_as_lastTool createInitialState (hd ?es) = None"
    by (simp add: same_as_lastTool_def createInitialState_def)
  have h4: "\<forall>x\<in>set (transcript_tools (messages createInitialState)).
      x < length (heap createInitialState) \<and>
      tool_call_id (heap createInitialState ! x) \<noteq> ''t1''"
    by (simp add: transcript_tools_def createInitialState_def)
  have h5: "tracked_entry after_calling ''t1'' 0 bash_calling"
    by (simp add: after_calling_eq tracked_entry_def entries_for_def transcript_tools_def)
       (simp add: bash_calling_def)
  have h6: "tool_call_id bash_called = ''t1''"
    by (simp add: bash_called_def)
  have l: "length (heap createInitialState) = 0"
    by (simp add: createInitialState_def)
  have v: "(last ?es)\<lparr>ToolEventData.content := latest_content ?es\<rparr> = bash_called"
    "Object_assign bash_calling bash_called = bash_called"
    by (simp_all add: bash_called_def Object_assign_def)
  note th = one_entry_per_tool_call_id [where es = ?es and i = "''t1''"
      and s = createInitialState and s' = after_calling and i' = "''t1''" and a = 0
      and t = bash_calling and e = bash_called]
  from th h1 h2 h3 h4 have c1:
    "entries_for (handleEvents (map ToolEvent ?es) createInitialState) ''t1'' =
       [length (heap createInitialState)]"
    "heap (handleEvents (map ToolEvent ?es) createInitialState) ! length (heap createInitialState) =
       (last ?es)\<lparr>ToolEventData.content := latest_content ?es\<rparr>"
    by blast+
  from th h5 h6 have c2:
    "messages (handleEvent (ToolEvent bash_called) after_calling) = messages after_calling"
    "tracked_entry (handleEvent (ToolEvent bash_called) after_calling) ''t1'' 0
       (Object_assign bash_calling bash_called)"
    by blast+
  have h7: "tool_call_id bash_calling = ''t1''"
    "transcript_tools (messages createInitialState) = []"
    by (simp_all add: bash_calling_def transcript_tools_def createInitialState_def)
  show ?thesis
    using h1 h3 h5 h6 h7 c1 c2 unfolding l v by (intro conjI)
qed

end
